theory Spec2Isabelle
  imports Complex_Main
begin

section \<open>NumPy floating-point values\<close>

text \<open>
  A pixel of a raster is an IEEE floating-point number. The embedding keeps the three
  special values that decide the behaviour of the post-processing functions (NaN and the
  two infinities) and computes on the finite values with exact real arithmetic: rounding,
  overflow and the sign of zero are not modelled. NumPy never raises on a division by
  zero or on an invalid operation of an array: it warns and stores inf or NaN.
\<close>

datatype npfloat = Fin real | PInf | NInf | NaN

fun isnan :: "npfloat \<Rightarrow> bool" where
  "isnan NaN = True"
| "isnan _ = False"

fun isinf :: "npfloat \<Rightarrow> bool" where
  "isinf PInf = True"
| "isinf NInf = True"
| "isinf _ = False"

text \<open>Comparisons: every comparison with NaN is false.\<close>

fun flt :: "npfloat \<Rightarrow> npfloat \<Rightarrow> bool" where
  "flt NaN _ = False"
| "flt _ NaN = False"
| "flt (Fin x) (Fin y) = (x < y)"
| "flt NInf NInf = False"
| "flt NInf _ = True"
| "flt _ NInf = False"
| "flt PInf _ = False"
| "flt _ PInf = True"

fun feq :: "npfloat \<Rightarrow> npfloat \<Rightarrow> bool" where
  "feq NaN _ = False"
| "feq _ NaN = False"
| "feq a b = (a = b)"

definition fle :: "npfloat \<Rightarrow> npfloat \<Rightarrow> bool" where
  "fle a b = (flt a b \<or> feq a b)"

fun fneg :: "npfloat \<Rightarrow> npfloat" where
  "fneg (Fin x) = Fin (- x)"
| "fneg PInf = NInf"
| "fneg NInf = PInf"
| "fneg NaN = NaN"

fun fabs :: "npfloat \<Rightarrow> npfloat" where
  "fabs (Fin x) = Fin \<bar>x\<bar>"
| "fabs PInf = PInf"
| "fabs NInf = PInf"
| "fabs NaN = NaN"

fun fadd :: "npfloat \<Rightarrow> npfloat \<Rightarrow> npfloat" where
  "fadd NaN _ = NaN"
| "fadd _ NaN = NaN"
| "fadd (Fin x) (Fin y) = Fin (x + y)"
| "fadd PInf NInf = NaN"
| "fadd NInf PInf = NaN"
| "fadd PInf _ = PInf"
| "fadd NInf _ = NInf"
| "fadd _ PInf = PInf"
| "fadd _ NInf = NInf"

definition fsub :: "npfloat \<Rightarrow> npfloat \<Rightarrow> npfloat" where
  "fsub a b = fadd a (fneg b)"

text \<open>The sign of a value, and the infinity (or NaN, for 0) that a sign selects.\<close>

fun sign_of :: "npfloat \<Rightarrow> real" where
  "sign_of (Fin x) = sgn x"
| "sign_of PInf = 1"
| "sign_of NInf = - 1"
| "sign_of NaN = 0"

definition inf_of_sign :: "real \<Rightarrow> npfloat" where
  "inf_of_sign s = (if 0 < s then PInf else if s < 0 then NInf else NaN)"

fun fmul :: "npfloat \<Rightarrow> npfloat \<Rightarrow> npfloat" where
  "fmul NaN _ = NaN"
| "fmul _ NaN = NaN"
| "fmul (Fin x) (Fin y) = Fin (x * y)"
| "fmul a b = inf_of_sign (sign_of a * sign_of b)"

text \<open>
  Division: a finite nonzero value over 0 is the infinity of its sign, 0 / 0 and
  inf / inf are NaN, and a finite value over an infinity is 0.
\<close>

fun fdiv :: "npfloat \<Rightarrow> npfloat \<Rightarrow> npfloat" where
  "fdiv NaN _ = NaN"
| "fdiv _ NaN = NaN"
| "fdiv (Fin x) (Fin y) = (if y = 0 then inf_of_sign x else Fin (x / y))"
| "fdiv (Fin x) _ = Fin 0"
| "fdiv a (Fin y) = (if y < 0 then fneg a else a)"
| "fdiv _ _ = NaN"

fun fsqrt :: "npfloat \<Rightarrow> npfloat" where
  "fsqrt (Fin x) = (if x < 0 then NaN else Fin (sqrt x))"
| "fsqrt PInf = PInf"
| "fsqrt NInf = NaN"
| "fsqrt NaN = NaN"

fun farccos :: "npfloat \<Rightarrow> npfloat" where
  "farccos (Fin x) = (if - 1 \<le> x \<and> x \<le> 1 then Fin (arccos x) else NaN)"
| "farccos _ = NaN"

definition rad2deg :: "npfloat \<Rightarrow> npfloat" where
  "rad2deg a = fmul a (Fin (180 / pi))"

definition deg2rad :: "npfloat \<Rightarrow> npfloat" where
  "deg2rad a = fmul a (Fin (pi / 180))"

section \<open>Arrays and raster files\<close>

text \<open>
  A two-dimensional array is the list of its rows. A raster file carries its bands (all
  of one shape) and the x-scale of its geotransform, which is the pixel resolution.
\<close>

type_synonym ndarray = "npfloat list list"

record rasterfile =
  bands :: "ndarray list"
  transform0 :: npfloat

datatype error = IndexError | ValueError | NameError | TypeError | IOError

definition amap :: "(npfloat \<Rightarrow> npfloat) \<Rightarrow> ndarray \<Rightarrow> ndarray" where
  "amap f a = map (map f) a"

definition amap2 :: "(npfloat \<Rightarrow> npfloat \<Rightarrow> npfloat) \<Rightarrow> ndarray \<Rightarrow> ndarray \<Rightarrow> ndarray" where
  "amap2 f a b = map2 (map2 f) a b"

definition shape :: "'a list list \<Rightarrow> nat \<times> nat" where
  "shape a = (length a, (case a of [] \<Rightarrow> 0 | r # _ \<Rightarrow> length r))"

text \<open>Every row of a NumPy array has the same length.\<close>

definition rectangular :: "'a list list \<Rightarrow> bool" where
  "rectangular a = list_all (\<lambda>r. length r = snd (shape a)) a"

text \<open>\<^verbatim>\<open>src.read(k)\<close>: bands are numbered from 1; a missing band is an IndexError.\<close>

definition read_band :: "rasterfile \<Rightarrow> nat \<Rightarrow> error + ndarray" where
  "read_band f k =
     (if 1 \<le> k \<and> k \<le> length (bands f) then Inr (bands f ! (k - 1)) else Inl IndexError)"

definition count :: "rasterfile \<Rightarrow> nat" where
  "count f = length (bands f)"

text \<open>\<^verbatim>\<open>a[m == 0] = np.nan\<close>: the pixels whose mask value is 0 become NaN.\<close>

definition mask_invalid :: "ndarray \<Rightarrow> ndarray \<Rightarrow> ndarray" where
  "mask_invalid a valid = amap2 (\<lambda>v m. if feq m (Fin 0) then NaN else v) a valid"

subsection \<open>NaN-aware median\<close>

fun finsert :: "npfloat \<Rightarrow> npfloat list \<Rightarrow> npfloat list" where
  "finsert x [] = [x]"
| "finsert x (y # ys) = (if fle x y then x # y # ys else y # finsert x ys)"

fun fsort :: "npfloat list \<Rightarrow> npfloat list" where
  "fsort [] = []"
| "fsort (x # xs) = finsert x (fsort xs)"

definition dropnan :: "npfloat list \<Rightarrow> npfloat list" where
  "dropnan xs = filter (\<lambda>v. \<not> isnan v) xs"

text \<open>
  \<^verbatim>\<open>np.nanmedian\<close> of the flattened array: the NaNs are dropped, the rest is sorted, and
  the median is the middle element or the mean of the two middle ones; NaN when nothing
  is left.
\<close>

definition median_sorted :: "npfloat list \<Rightarrow> npfloat" where
  "median_sorted s =
     (let n = length s in
      if n = 0 then NaN
      else if odd n then s ! (n div 2)
      else fdiv (fadd (s ! (n div 2 - 1)) (s ! (n div 2))) (Fin 2))"

definition nanmedian :: "npfloat list \<Rightarrow> npfloat" where
  "nanmedian xs = median_sorted (fsort (dropnan xs))"

section \<open>calc\_velocity\<close>

text \<open>
  The magnitude of one pixel: \<^verbatim>\<open>v = np.sqrt(dx**2 + dy**2); v = v * res;
  v = (v / abs(dt.days)) * 365\<close>.
\<close>

definition velocity_px :: "npfloat \<Rightarrow> int \<Rightarrow> npfloat \<Rightarrow> npfloat \<Rightarrow> npfloat" where
  "velocity_px res days dx dy =
     fmul (fdiv (fmul (fsqrt (fadd (fmul dx dx) (fmul dy dy))) res)
                (Fin (of_int \<bar>days\<bar>)))
          (Fin 365)"

text \<open>
  The bearing of one pixel. \<^verbatim>\<open>north = [0, 1]\<close> is normalised, the offset vector is
  normalised by its Euclidean norm, their dot product goes through arccos and rad2deg,
  and the result is subtracted from 360 (0 where dx is not negative) under an absolute
  value.
\<close>

definition norm2 :: "npfloat \<Rightarrow> npfloat \<Rightarrow> npfloat" where
  "norm2 x y = fsqrt (fadd (fmul x x) (fmul y y))"

definition dot_product_px :: "npfloat \<Rightarrow> npfloat \<Rightarrow> npfloat" where
  "dot_product_px dx dy =
     (let n1 = norm2 (Fin 0) (Fin 1);
          u1x = fdiv (Fin 0) n1; u1y = fdiv (Fin 1) n1;
          n2 = norm2 dx dy;
          u2x = fdiv dx n2; u2y = fdiv dy n2
      in fadd (fmul u1x u2x) (fmul u1y u2y))"

definition bearing_of_dot :: "npfloat \<Rightarrow> npfloat \<Rightarrow> npfloat" where
  "bearing_of_dot dx dot_product =
     (let direction = rad2deg (farccos dot_product);
          subtract = (if flt dx (Fin 0) then Fin 360 else Fin 0)
      in fabs (fsub subtract direction))"

definition direction_px :: "npfloat \<Rightarrow> npfloat \<Rightarrow> npfloat" where
  "direction_px dx dy = bearing_of_dot dx (dot_product_px dx dy)"

definition resolution_of :: "rasterfile \<Rightarrow> npfloat option \<Rightarrow> npfloat" where
  "resolution_of f fixed_res = (case fixed_res of None \<Rightarrow> transform0 f | Some r \<Rightarrow> r)"

definition bind_err :: "error + 'a \<Rightarrow> ('a \<Rightarrow> error + 'b) \<Rightarrow> error + 'b" where
  "bind_err r k = (case r of Inl e \<Rightarrow> Inl e | Inr a \<Rightarrow> k a)"

text \<open>
  Reading the offsets: band 1 is the offset in x, band 2 the offset in y; when the file
  has exactly three bands the third one is the good-pixel mask.
\<close>

definition read_offsets :: "rasterfile \<Rightarrow> error + (ndarray \<times> ndarray)" where
  "read_offsets f =
     bind_err (read_band f 1) (\<lambda>dx.
     bind_err (read_band f 2) (\<lambda>dy.
       if count f = 3
       then bind_err (read_band f 3) (\<lambda>valid.
              Inr (mask_invalid dx valid, mask_invalid dy valid))
       else Inr (dx, dy)))"

definition calc_velocity ::
  "rasterfile \<Rightarrow> int \<Rightarrow> npfloat option \<Rightarrow> bool \<Rightarrow> error + (ndarray \<times> ndarray)" where
  "calc_velocity f days fixed_res medShift =
     bind_err (read_offsets f) (\<lambda>(dx1, dy1).
       let res = resolution_of f fixed_res;
           dx2 = (if days < 0 then amap (\<lambda>v. fmul v (Fin (- 1))) dx1 else dx1);
           dy2 = (if days < 0 then amap (\<lambda>v. fmul v (Fin (- 1))) dy1 else dy1);
           dx = (if medShift then amap (\<lambda>v. fsub v (nanmedian (concat dx2))) dx2 else dx2);
           dy = (if medShift then amap (\<lambda>v. fsub v (nanmedian (concat dy2))) dy2 else dy2);
           v = amap2 (velocity_px res days) dx dy;
           direction = amap2 direction_px dx dy
       in Inr (v, direction))"

section \<open>Region statistics\<close>

subsection \<open>NaN-aware statistics of a sample\<close>

definition fsum :: "npfloat list \<Rightarrow> npfloat" where
  "fsum xs = foldl fadd (Fin 0) xs"

text \<open>\<^verbatim>\<open>np.nanmean\<close>: the mean of the values that are not NaN; NaN for an empty slice.\<close>

definition nanmean :: "npfloat list \<Rightarrow> npfloat" where
  "nanmean xs =
     (let v = dropnan xs in
      if v = [] then NaN else fdiv (fsum v) (Fin (real (length v))))"

text \<open>\<^verbatim>\<open>np.nanstd\<close>: the square root of the mean squared deviation (ddof = 0).\<close>

definition nanstd :: "npfloat list \<Rightarrow> npfloat" where
  "nanstd xs =
     (let v = dropnan xs; m = nanmean xs in
      if v = [] then NaN
      else fsqrt (fdiv (fsum (map (\<lambda>x. fmul (fsub x m) (fsub x m)) v))
                       (Fin (real (length v)))))"

text \<open>
  \<^verbatim>\<open>np.nanpercentile\<close> with the default linear method: the virtual index
  \<open>q / 100 * (n - 1)\<close> into the sorted values, interpolated between its two neighbours.
\<close>

definition lerp :: "npfloat \<Rightarrow> npfloat \<Rightarrow> real \<Rightarrow> npfloat" where
  "lerp a b t =
     (let diff_b_a = fsub b a in
      if 1 / 2 \<le> t then fsub b (fmul diff_b_a (Fin (1 - t)))
      else fadd a (fmul diff_b_a (Fin t)))"

definition percentile_sorted :: "npfloat list \<Rightarrow> real \<Rightarrow> npfloat" where
  "percentile_sorted s q =
     (let n = length s in
      if n = 0 then NaN
      else let virtual_index = q / 100 * real (n - 1);
               previous = nat \<lfloor>virtual_index\<rfloor>;
               next_index = min (previous + 1) (n - 1);
               gamma = virtual_index - real previous
           in lerp (s ! previous) (s ! next_index) gamma)"

definition nanpercentile :: "npfloat list \<Rightarrow> real \<Rightarrow> npfloat" where
  "nanpercentile xs q = percentile_sorted (fsort (dropnan xs)) q"

subsection \<open>offset\_stats\_pixel and offset\_stats\_aoi\<close>

text \<open>
  What a Python function hands back: \<^verbatim>\<open>None\<close> (a bare \<^verbatim>\<open>return\<close>) or a tuple of floats.
\<close>

datatype pyret = PyNone | PyTuple "npfloat list"

text \<open>\<^verbatim>\<open>r[r == -9999] = np.nan\<close>, an assignment into the array the caller passed.\<close>

definition sentinel_to_nan :: "ndarray \<Rightarrow> ndarray" where
  "sentinel_to_nan r = amap (\<lambda>v. if feq v (Fin (- 9999)) then NaN else v) r"

text \<open>\<^verbatim>\<open>r = ((r * resolution) / dt) * 365\<close>, a new array bound to the local name.\<close>

definition to_metres_per_year :: "npfloat \<Rightarrow> int \<Rightarrow> ndarray \<Rightarrow> ndarray" where
  "to_metres_per_year resolution dt r =
     amap (\<lambda>v. fmul (fdiv (fmul v resolution) (Fin (of_int dt))) (Fin 365)) r"

text \<open>
  A Python slice \<^verbatim>\<open>xs[a:b]\<close>: a negative bound counts from the end, and both bounds are
  clamped to the length.
\<close>

definition slice_bound :: "nat \<Rightarrow> int \<Rightarrow> nat" where
  "slice_bound n k = (if k < 0 then nat (max 0 (k + int n)) else min (nat k) n)"

definition py_slice :: "int \<Rightarrow> int \<Rightarrow> 'a list \<Rightarrow> 'a list" where
  "py_slice a b xs =
     (let start = slice_bound (length xs) a; stop = slice_bound (length xs) b
      in take (stop - start) (drop start xs))"

definition stat_summary :: "npfloat list \<Rightarrow> pyret" where
  "stat_summary sample =
     (let mean = nanmean sample;
          median = nanmedian sample;
          p75 = nanpercentile sample 75;
          p25 = nanpercentile sample 25;
          std = nanstd sample
      in PyTuple [mean, std, median, p25, p75])"

text \<open>
  The raw-displacement mode (\<^verbatim>\<open>take_velocity = False\<close>) needs both \<^verbatim>\<open>dt\<close> and
  \<^verbatim>\<open>resolution\<close>; without them the functions print a message and return \<^verbatim>\<open>None\<close>.
\<close>

definition convert_if_raw ::
  "bool \<Rightarrow> npfloat option \<Rightarrow> int option \<Rightarrow> ndarray \<Rightarrow> ndarray option" where
  "convert_if_raw take_velocity resolution dt r =
     (if take_velocity then Some r
      else case (resolution, dt) of
             (Some res, Some d) \<Rightarrow> Some (to_metres_per_year res d r)
           | _ \<Rightarrow> None)"

text \<open>
  Both functions return the pair of the caller's array as the call leaves it and of the
  value handed back.
\<close>

definition offset_stats_pixel ::
  "ndarray \<Rightarrow> int \<Rightarrow> int \<Rightarrow> int \<Rightarrow> npfloat option \<Rightarrow> int option \<Rightarrow> bool \<Rightarrow> ndarray \<times> pyret" where
  "offset_stats_pixel r xcoord ycoord pad resolution dt take_velocity =
     (let r0 = sentinel_to_nan r in
      case convert_if_raw take_velocity resolution dt r0 of
        None \<Rightarrow> (r0, PyNone)
      | Some r1 \<Rightarrow>
          let sample = map (py_slice (xcoord - pad) (xcoord + pad + 1))
                           (py_slice (ycoord - pad) (ycoord + pad + 1) r1)
          in (r0, stat_summary (concat sample)))"

text \<open>
  \<^verbatim>\<open>r[mask == 1]\<close>: the pixels under the mask, row by row; a boolean index of another
  shape raises IndexError.
\<close>

definition boolean_select :: "ndarray \<Rightarrow> ndarray \<Rightarrow> error + npfloat list" where
  "boolean_select r msk =
     (if shape r \<noteq> shape msk then Inl IndexError
      else Inr (map fst (filter (\<lambda>(v, m). feq m (Fin 1)) (zip (concat r) (concat msk)))))"

definition offset_stats_aoi ::
  "ndarray \<Rightarrow> ndarray \<Rightarrow> npfloat option \<Rightarrow> int option \<Rightarrow> bool \<Rightarrow> ndarray \<times> pyret" where
  "offset_stats_aoi r msk resolution dt take_velocity =
     (let r0 = sentinel_to_nan r in
      case convert_if_raw take_velocity resolution dt r0 of
        None \<Rightarrow> (r0, PyNone)
      | Some r1 \<Rightarrow>
          (case boolean_select r1 msk of
             Inl e \<Rightarrow> (r0, PyTuple [NaN, NaN, NaN, NaN])
           | Inr sample \<Rightarrow> (r0, stat_summary sample)))"

text \<open>
  The caller's \<^verbatim>\<open>stats[index,0], ..., stats[index,4] = offset_stats_aoi(...)\<close>: unpacking
  into five targets raises ValueError on a tuple of another length and TypeError on
  \<^verbatim>\<open>None\<close>.
\<close>

fun unpack5 :: "pyret \<Rightarrow> error + (npfloat \<times> npfloat \<times> npfloat \<times> npfloat \<times> npfloat)" where
  "unpack5 (PyTuple [a, b, c, d, e]) = Inr (a, b, c, d, e)"
| "unpack5 (PyTuple _) = Inl ValueError"
| "unpack5 PyNone = Inl TypeError"

section \<open>Match records\<close>

text \<open>
  Modelled from the spec: \<^verbatim>\<open>helper.get_scene_id\<close> and \<^verbatim>\<open>helper.get_date\<close> (module
  helper\_functions, which is not among the sources) derive the scene identifiers and the
  acquisition dates from \<^verbatim>\<open>ref\<close> and \<^verbatim>\<open>sec\<close>; the temporal baseline is a signed count of
  whole days. One row of the match table carries these derived columns.
\<close>

record matchrow =
  ref :: string
  id_ref :: string
  id_sec :: string
  date_ref :: int
  date_sec :: int

definition dt_days :: "matchrow \<Rightarrow> int" where
  "dt_days row = date_sec row - date_ref row"

text \<open>
  get\_stats\_in\_aoi, the upper time limit:
  \<^verbatim>\<open>if max_dt is not None: df = df[df.dt <= datetime.timedelta(days=max_dt)]\<close>.
\<close>

definition filter_max_dt :: "int option \<Rightarrow> matchrow list \<Rightarrow> matchrow list" where
  "filter_max_dt max_dt df =
     (case max_dt of None \<Rightarrow> df | Some m \<Rightarrow> filter (\<lambda>row. dt_days row \<le> m) df)"

section \<open>Files and paths\<close>

text \<open>
  The storage the functions read: raster files and match tables, by name.
\<close>

record filesystem =
  rasters :: "string \<Rightarrow> rasterfile option"
  tables :: "string \<Rightarrow> matchrow list option"

definition isfile :: "filesystem \<Rightarrow> string \<Rightarrow> bool" where
  "isfile fs x = (rasters fs x \<noteq> None)"

text \<open>
  Modelled from the spec: \<^verbatim>\<open>helper.read_file(x, b)\<close>, \<^verbatim>\<open>helper.read_transform(x)\<close> and
  \<^verbatim>\<open>helper.read_meta(x)\<close> (module helper\_functions, which is not among the sources) are
  the raster adapter: they open a raster and return band \<open>b\<close> as it is stored, the
  geotransform, and the metadata with the band count. get\_stats\_in\_aoi hands the arrays
  of \<^verbatim>\<open>helper.read_file\<close> to the statistics functions, which replace the sentinel
  themselves.
\<close>

definition read_file :: "filesystem \<Rightarrow> string \<Rightarrow> nat \<Rightarrow> error + ndarray" where
  "read_file fs x b = (case rasters fs x of None \<Rightarrow> Inl IOError | Some f \<Rightarrow> read_band f b)"

text \<open>\<^verbatim>\<open>os.path.split\<close> and \<^verbatim>\<open>os.path.join\<close> (two arguments) on POSIX paths.\<close>

definition os_path_split :: "string \<Rightarrow> string \<times> string" where
  "os_path_split p =
     (let tail = rev (takeWhile (\<lambda>c. c \<noteq> CHR ''/'') (rev p));
          head = rev (dropWhile (\<lambda>c. c \<noteq> CHR ''/'') (rev p));
          stripped = rev (dropWhile (\<lambda>c. c = CHR ''/'') (rev head))
      in (if stripped = [] then head else stripped, tail))"

definition os_path_join :: "string \<Rightarrow> string \<Rightarrow> string" where
  "os_path_join a b =
     (if b \<noteq> [] \<and> hd b = CHR ''/'' then b
      else if a = [] \<or> last a = CHR ''/'' then a @ b
      else a @ ''/'' @ b)"

text \<open>The column \<^verbatim>\<open>df["path"]\<close>: the directory of the reference image.\<close>

definition row_path :: "matchrow \<Rightarrow> string" where
  "row_path row = fst (os_path_split (ref row))"

definition velocity_filename :: "string \<Rightarrow> matchrow \<Rightarrow> string" where
  "velocity_filename prefix_ext row =
     row_path row @ ''/disparity_maps/'' @ id_ref row @ ''_'' @ id_sec row @ prefix_ext
       @ ''-F_velocity.tif''"

definition disparity_filename :: "string \<Rightarrow> matchrow \<Rightarrow> string" where
  "disparity_filename prefix_ext row =
     row_path row @ ''/disparity_maps/'' @ id_ref row @ ''_'' @ id_sec row @ prefix_ext
       @ ''-F.tif''"

text \<open>A list comprehension whose elements may raise: the first error ends it.\<close>

fun collect :: "('a \<Rightarrow> error + 'b) \<Rightarrow> 'a list \<Rightarrow> error + 'b list" where
  "collect g [] = Inr []"
| "collect g (x # xs) =
     bind_err (g x) (\<lambda>y. bind_err (collect g xs) (\<lambda>ys. Inr (y # ys)))"

text \<open>\<^verbatim>\<open>xs[i]\<close> for an index that is not negative.\<close>

definition py_index :: "'a list \<Rightarrow> nat \<Rightarrow> error + 'a" where
  "py_index xs i = (if i < length xs then Inr (xs ! i) else Inl IndexError)"

section \<open>Stacking\<close>

subsection \<open>Masked arrays and their reductions along the stack\<close>

text \<open>
  A masked array: \<open>None\<close> is a masked pixel. \<^verbatim>\<open>np.ma.masked_invalid\<close> masks NaN and
  the infinities.
\<close>

type_synonym marray = "npfloat option list list"

definition masked_invalid :: "ndarray \<Rightarrow> marray" where
  "masked_invalid a = map (map (\<lambda>v. if isnan v \<or> isinf v then None else Some v)) a"

text \<open>
  The result of a reduction along axis 0: an array of the common shape of the inputs, or
  the scalar that NumPy returns (with a warning) for a stack of no arrays.
\<close>

datatype composite = Scalar npfloat | Grid marray

definition same_shapes :: "'a list list list \<Rightarrow> bool" where
  "same_shapes arrays = list_all (\<lambda>a. shape a = shape (hd arrays)) arrays"

text \<open>The values of all arrays at each pixel, for arrays of one shape.\<close>

definition stack_pixels :: "'a list list list \<Rightarrow> 'a list list list" where
  "stack_pixels arrays =
     (let (h, w) = shape (hd arrays) in
      map (\<lambda>i. map (\<lambda>j. map (\<lambda>a. a ! i ! j) arrays) [0..<w]) [0..<h])"

definition reduce_axis0 ::
  "('a list \<Rightarrow> npfloat option) \<Rightarrow> 'a list list list \<Rightarrow> error + composite" where
  "reduce_axis0 g arrays =
     (if arrays = [] then Inr (Scalar NaN)
      else if \<not> same_shapes arrays then Inl ValueError
      else Inr (Grid (map (map g) (stack_pixels arrays))))"

definition unmasked :: "npfloat option list \<Rightarrow> npfloat list" where
  "unmasked vals = concat (map (\<lambda>v. case v of None \<Rightarrow> [] | Some x \<Rightarrow> [x]) vals)"

text \<open>
  \<^verbatim>\<open>np.ma.average(array_list, axis=0)\<close> and \<^verbatim>\<open>np.ma.std(array_list, axis=0)\<close> at one
  pixel: over the arrays where the pixel is not masked; masked when there is none.
\<close>

definition ma_average_px :: "npfloat option list \<Rightarrow> npfloat option" where
  "ma_average_px vals =
     (let v = unmasked vals in
      if v = [] then None else Some (fdiv (fsum v) (Fin (real (length v)))))"

definition ma_std_px :: "npfloat option list \<Rightarrow> npfloat option" where
  "ma_std_px vals =
     (let v = unmasked vals in
      if v = [] then None
      else let m = fdiv (fsum v) (Fin (real (length v)))
           in Some (fsqrt (fdiv (fsum (map (\<lambda>x. fmul (fsub x m) (fsub x m)) v))
                                (Fin (real (length v))))))"

subsection \<open>Circular statistics\<close>

fun fsin :: "npfloat \<Rightarrow> npfloat" where
  "fsin (Fin x) = Fin (sin x)"
| "fsin _ = NaN"

fun fcos :: "npfloat \<Rightarrow> npfloat" where
  "fcos (Fin x) = Fin (cos x)"
| "fcos _ = NaN"

fun flog :: "npfloat \<Rightarrow> npfloat" where
  "flog (Fin x) = (if 0 < x then Fin (ln x) else if x = 0 then NInf else NaN)"
| "flog PInf = PInf"
| "flog _ = NaN"

definition arctan2 :: "real \<Rightarrow> real \<Rightarrow> real" where
  "arctan2 y x =
     (if 0 < x then arctan (y / x)
      else if x < 0 then (if 0 \<le> y then arctan (y / x) + pi else arctan (y / x) - pi)
      else if 0 < y then pi / 2 else if y < 0 then - (pi / 2) else 0)"

text \<open>The angle of a resultant vector, brought into [0, 2 pi).\<close>

fun resultant_angle :: "npfloat \<Rightarrow> npfloat \<Rightarrow> npfloat" where
  "resultant_angle (Fin s) (Fin c) =
     (let res = arctan2 s c in Fin (if res < 0 then res + 2 * pi else res))"
| "resultant_angle _ _ = NaN"

text \<open>
  \<^verbatim>\<open>scipy.stats.circmean(samples, axis=0, nan_policy="omit")\<close> at one pixel, with the
  default range [0, 2 pi): the NaNs are left out, the sines and the cosines are summed
  and the mean is the angle of the resultant; NaN when all samples are NaN.
\<close>

definition circmean_px :: "npfloat list \<Rightarrow> npfloat" where
  "circmean_px samples =
     (let v = dropnan samples in
      if v = [] then NaN
      else resultant_angle (fsum (map fsin v)) (fsum (map fcos v)))"

text \<open>
  \<^verbatim>\<open>scipy.stats.circstd\<close> likewise: \<open>sqrt (- 2 ln R)\<close> for the length \<open>R\<close> of the mean
  resultant.
\<close>

fun fmin1 :: "npfloat \<Rightarrow> npfloat" where
  "fmin1 (Fin x) = Fin (min 1 x)"
| "fmin1 PInf = Fin 1"
| "fmin1 a = a"

definition circstd_px :: "npfloat list \<Rightarrow> npfloat" where
  "circstd_px samples =
     (let v = dropnan samples in
      if v = [] then NaN
      else let n = Fin (real (length v));
               sin_mean = fdiv (fsum (map fsin v)) n;
               cos_mean = fdiv (fsum (map fcos v)) n;
               R = fmin1 (fsqrt (fadd (fmul sin_mean sin_mean) (fmul cos_mean cos_mean)))
           in fsqrt (fmul (Fin (- 2)) (flog R)))"

subsection \<open>stack\_rasters\<close>

text \<open>
  The argument \<^verbatim>\<open>matches\<close>: the path of a match file, a data frame, or anything else.
  A data frame is the list of its rows under the default index 0, 1, ..., as
  \<^verbatim>\<open>pd.read_csv\<close> builds it; on such a frame the label lookups \<^verbatim>\<open>df.filenames[i]\<close> and
  \<^verbatim>\<open>df["dt"][i]\<close> are lookups by position. A frame with another index, on which these
  lookups raise KeyError, is outside the model.
\<close>

datatype matches_arg = MatchFile string | DataFrame "matchrow list" | OtherArg

text \<open>
  The table, the directory \<^verbatim>\<open>path\<close> and the name \<^verbatim>\<open>fn\<close>; \<open>None\<close> where the function
  prints a message and returns \<^verbatim>\<open>None\<close>. \<^verbatim>\<open>df.ref.iloc[0]\<close> raises IndexError on a data
  frame without rows.
\<close>

definition resolve_matches ::
  "filesystem \<Rightarrow> matches_arg \<Rightarrow> error + (matchrow list \<times> string \<times> string) option" where
  "resolve_matches fs matches =
     (case matches of
        MatchFile p \<Rightarrow>
          (case tables fs p of
             None \<Rightarrow> Inr None
           | Some df \<Rightarrow> Inr (Some (df, os_path_split p)))
      | DataFrame df \<Rightarrow>
          bind_err (py_index df 0) (\<lambda>row0.
            Inr (Some (df, fst (os_path_split (ref row0)), ''matches.csv'')))
      | OtherArg \<Rightarrow> Inr None)"

definition linear_stack :: "marray list \<Rightarrow> error + (composite \<times> composite)" where
  "linear_stack array_list =
     bind_err (reduce_axis0 ma_average_px array_list) (\<lambda>average_vals.
     bind_err (reduce_axis0 ma_std_px array_list) (\<lambda>std_vals.
       Inr (average_vals, std_vals)))"

fun composite_rad2deg :: "composite \<Rightarrow> composite" where
  "composite_rad2deg (Scalar a) = Scalar (rad2deg a)"
| "composite_rad2deg (Grid g) = Grid (map (map (map_option rad2deg)) g)"

definition circular_stack :: "ndarray list \<Rightarrow> error + (composite \<times> composite)" where
  "circular_stack array_list =
     bind_err (reduce_axis0 (\<lambda>v. Some (circmean_px v)) array_list) (\<lambda>m.
     bind_err (reduce_axis0 (\<lambda>v. Some (circstd_px v)) array_list) (\<lambda>sd.
       Inr (composite_rad2deg m, composite_rad2deg sd)))"

text \<open>
  The list \<^verbatim>\<open>array_list\<close> of the raw selection; the name stays unbound (\<open>None\<close>) when
  \<^verbatim>\<open>what\<close> is neither "dx" nor "dy", since the \<^verbatim>\<open>return\<close> after the message is
  commented out.
\<close>

definition raw_array_list ::
  "filesystem \<Rightarrow> string \<Rightarrow> string list \<Rightarrow> error + ndarray list option" where
  "raw_array_list fs what existing =
     (if what = ''dx'' then bind_err (collect (\<lambda>x. read_file fs x 1) existing) (\<lambda>a. Inr (Some a))
      else if what = ''dy'' then bind_err (collect (\<lambda>x. read_file fs x 2) existing) (\<lambda>a. Inr (Some a))
      else Inr None)"

definition bound_name :: "'a option \<Rightarrow> error + 'a" where
  "bound_name v = (case v of None \<Rightarrow> Inl NameError | Some a \<Rightarrow> Inr a)"

text \<open>
  \<^verbatim>\<open>mask_list = [helper.read_file(df.filenames[i], 3) for i in range(len(df))
  if (os.path.isfile(df.filenames[i]) and bands[i] == 3)]\<close>: the index \<open>i\<close> runs over the
  rows of the table, and \<^verbatim>\<open>bands\<close> holds one entry per existing file.
\<close>

fun mask_list_of :: "filesystem \<Rightarrow> nat list \<Rightarrow> (nat \<times> string) list \<Rightarrow> error + ndarray list" where
  "mask_list_of fs bnds [] = Inr []"
| "mask_list_of fs bnds ((i, x) # rest) =
     (if isfile fs x
      then bind_err (py_index bnds i) (\<lambda>b.
             if b = 3
             then bind_err (read_file fs x 3) (\<lambda>m.
                  bind_err (mask_list_of fs bnds rest) (\<lambda>ms. Inr (m # ms)))
             else mask_list_of fs bnds rest)
      else mask_list_of fs bnds rest)"

text \<open>
  \<^verbatim>\<open>np.where(mask == 1, a, np.nan)\<close> with NumPy's broadcasting of two-dimensional
  shapes; shapes that do not broadcast raise ValueError.
\<close>

definition broadcastable :: "nat \<times> nat \<Rightarrow> nat \<times> nat \<Rightarrow> bool" where
  "broadcastable s t =
     ((fst s = fst t \<or> fst s = 1 \<or> fst t = 1) \<and> (snd s = snd t \<or> snd s = 1 \<or> snd t = 1))"

definition broadcast_to :: "nat \<times> nat \<Rightarrow> ndarray \<Rightarrow> ndarray" where
  "broadcast_to s a =
     (let rows = (if length a = 1 then replicate (fst s) (hd a) else a)
      in map (\<lambda>r. if length r = 1 then replicate (snd s) (hd r) else r) rows)"

definition np_where_mask :: "ndarray \<Rightarrow> ndarray \<Rightarrow> error + ndarray" where
  "np_where_mask m a =
     (if \<not> broadcastable (shape m) (shape a) then Inl ValueError
      else let s = (max (fst (shape m)) (fst (shape a)), max (snd (shape m)) (snd (shape a)))
           in Inr (amap2 (\<lambda>mv v. if feq mv (Fin 1) then v else NaN)
                         (broadcast_to s m) (broadcast_to s a)))"

text \<open>
  One round of the loop \<^verbatim>\<open>for i in range(len(dt))\<close>. The array that \<^verbatim>\<open>np.where\<close>
  builds for a three-band file is bound to \<^verbatim>\<open>masked\<close> and then replaced by the
  unconditional \<^verbatim>\<open>masked = array_list[i]\<close>.
\<close>

definition convert_step ::
  "ndarray list option \<Rightarrow> int list \<Rightarrow> npfloat list \<Rightarrow> nat list \<Rightarrow> ndarray list \<Rightarrow> bool \<Rightarrow> nat
     \<Rightarrow> error + marray" where
  "convert_step array_list dt resolution bnds mask_list medShift i =
     bind_err (py_index bnds i) (\<lambda>b.
     bind_err (if b = 3
               then bind_err (py_index mask_list i) (\<lambda>m.
                    bind_err (bound_name array_list) (\<lambda>arrs.
                    bind_err (py_index arrs i) (\<lambda>a.
                    bind_err (np_where_mask m a) (\<lambda>masked. Inr (Some masked)))))
               else Inr None) (\<lambda>masked_by_where.
     bind_err (bound_name array_list) (\<lambda>arrs.
     bind_err (py_index arrs i) (\<lambda>masked0.
       let masked = (if medShift
                     then amap (\<lambda>v. fsub v (nanmedian (concat masked0))) masked0
                     else masked0)
       in bind_err (py_index resolution i) (\<lambda>res.
          bind_err (py_index dt i) (\<lambda>d.
            Inr (masked_invalid (to_metres_per_year res d masked))))))))"

text \<open>
  The raw selection (\<^verbatim>\<open>what\<close> other than "velocity" and "direction"): the lists
  \<^verbatim>\<open>dt\<close>, \<^verbatim>\<open>resolution\<close> and \<^verbatim>\<open>bands\<close> of the existing files, the mask list, and the
  loop that converts every array to metres per year.
\<close>

definition raw_stack ::
  "filesystem \<Rightarrow> string \<Rightarrow> bool \<Rightarrow> matchrow list \<Rightarrow> string list \<Rightarrow> error + marray list" where
  "raw_stack fs what medShift df filenames =
     bind_err (raw_array_list fs what (filter (isfile fs) filenames)) (\<lambda>array_list.
       let dt = map (\<lambda>(row, x). dt_days row) (filter (\<lambda>(row, x). isfile fs x) (zip df filenames));
           files = List.map_filter (rasters fs) filenames;
           resolution = map transform0 files;
           bnds = map count files
       in bind_err (mask_list_of fs bnds (zip [0..<length df] filenames)) (\<lambda>mask_list.
          bind_err (collect (convert_step array_list dt resolution bnds mask_list medShift)
                            [0..<length dt]) (\<lambda>converted.
          bind_err (bound_name array_list) (\<lambda>_. Inr converted))))"

text \<open>
  Modelled from the spec: \<^verbatim>\<open>helper.save_file\<close> (module helper\_functions, which is not
  among the sources) persists the bands with the georeferencing copied from a reference
  file. The record holds what
  \<^verbatim>\<open>helper.save_file([average_vals, std_vals], reference, outname)\<close> is given.
\<close>

record written =
  reference :: string
  outname :: string
  average_vals :: composite
  std_vals :: composite

text \<open>
  stack\_rasters returns the composite handed to \<^verbatim>\<open>save_file\<close> (if any: the loop
  \<^verbatim>\<open>while i < len(df)\<close> saves with the first existing file as reference and saves
  nothing when no file exists) and the returned value (\<open>None\<close> for Python's \<^verbatim>\<open>None\<close>).
\<close>

text \<open>The column \<^verbatim>\<open>df["filenames"]\<close> for the selected quantity.\<close>

definition stack_filenames :: "string \<Rightarrow> string \<Rightarrow> matchrow list \<Rightarrow> string list" where
  "stack_filenames prefix_ext what df =
     (if what = ''velocity'' \<or> what = ''direction''
      then map (velocity_filename prefix_ext) df
      else map (disparity_filename prefix_ext) df)"

definition stack_rasters ::
  "filesystem \<Rightarrow> matches_arg \<Rightarrow> string \<Rightarrow> string \<Rightarrow> bool
     \<Rightarrow> error + (written option \<times> string option)" where
  "stack_rasters fs matches prefix_ext what medShift =
     bind_err (resolve_matches fs matches) (\<lambda>resolved.
       case resolved of
         None \<Rightarrow> Inr (None, None)
       | Some (df, path, fn) \<Rightarrow>
           let filenames = stack_filenames prefix_ext what df;
               existing = filter (isfile fs) filenames;
               out = os_path_join path
                       (take (length fn - 4) fn @ ''_average_'' @ what @ prefix_ext @ ''.tif'')
           in bind_err
                (if what = ''velocity''
                 then bind_err (collect (\<lambda>x. bind_err (read_file fs x 1)
                                                (\<lambda>a. Inr (masked_invalid a))) existing)
                        linear_stack
                 else if what = ''direction''
                 then bind_err (collect (\<lambda>x. bind_err (read_file fs x 2)
                                                (\<lambda>a. Inr (amap deg2rad a))) existing)
                        circular_stack
                 else bind_err (raw_stack fs what medShift df filenames) linear_stack)
                (\<lambda>(average, std).
                   Inr (map_option
                          (\<lambda>x. \<lparr>reference = x, outname = out,
                                 average_vals = average, std_vals = std\<rparr>)
                          (find (isfile fs) filenames),
                        Some out)))"

section \<open>Properties of calc\_velocity\<close>

subsection \<open>Pixels of element-wise results\<close>

lemma amap2_pixel:
  assumes "row \<in> set (amap2 f a b)" "p \<in> set row"
  shows "\<exists>x y. p = f x y"
proof -
  from assms(1) obtain ra rb where "row = map2 f ra rb"
    by (auto simp: amap2_def set_zip)
  with assms(2) show ?thesis by (auto simp: set_zip)
qed

lemma amap2_replicate:
  "amap2 f (replicate h (replicate w a)) (replicate h (replicate w b))
     = replicate h (replicate w (f a b))"
  by (simp add: amap2_def)

lemma calc_velocity_Inr:
  assumes "calc_velocity f days fixed_res medShift = Inr (v, d)"
  shows "\<exists>dx dy. v = amap2 (velocity_px (resolution_of f fixed_res) days) dx dy
           \<and> d = amap2 direction_px dx dy"
  using assms
  by (auto simp: calc_velocity_def bind_err_def Let_def split: sum.splits prod.splits)

lemma read_offsets_ok:
  assumes "2 \<le> count f"
  shows "\<exists>dx dy. read_offsets f = Inr (dx, dy)"
  using assms by (auto simp: read_offsets_def read_band_def count_def bind_err_def)

subsection \<open>Numerical bounds\<close>

text \<open>The partial sums of the alternating arctan series enclose its limit.\<close>

lemma arctan_series_bounds:
  fixes x :: real
  assumes "0 \<le> x" "x \<le> 1"
  shows "(\<Sum>k<2 * n. (- 1) ^ k * (1 / real (k * 2 + 1) * x ^ (k * 2 + 1))) \<le> arctan x"
    and "arctan x \<le> (\<Sum>k<2 * n + 1. (- 1) ^ k * (1 / real (k * 2 + 1) * x ^ (k * 2 + 1)))"
proof -
  let ?a = "\<lambda>k. 1 / real (k * 2 + 1) * x ^ (k * 2 + 1)"
  have ax: "\<bar>x\<bar> \<le> 1" using assms by simp
  have z: "?a \<longlonglongrightarrow> 0" by (rule zeroseq_arctan_series [OF ax])
  have p: "\<And>k. 0 \<le> ?a k" using assms by simp
  have m: "\<And>k. ?a (Suc k) \<le> ?a k"
  proof -
    fix k
    have "x ^ (Suc k * 2 + 1) \<le> x ^ (k * 2 + 1)"
      using assms by (intro power_decreasing) auto
    moreover have "1 / real (Suc k * 2 + 1) \<le> 1 / real (k * 2 + 1)"
      by (simp add: field_simps)
    ultimately show "?a (Suc k) \<le> ?a k"
      using assms by (intro mult_mono) auto
  qed
  have s: "arctan x = (\<Sum>k. (- 1) ^ k * ?a k)" by (rule arctan_series [OF ax])
  show "(\<Sum>k<2 * n. (- 1) ^ k * ?a k) \<le> arctan x"
    unfolding s by (rule summable_Leibniz'(2) [OF z p m])
  show "arctan x \<le> (\<Sum>k<2 * n + 1. (- 1) ^ k * ?a k)"
    unfolding s by (rule summable_Leibniz'(4) [OF z p m])
qed

lemma arctan_third_bounds: "0.32175 < arctan (1 / 3 :: real)" "arctan (1 / 3 :: real) < 0.321755"
proof -
  have "(\<Sum>k<2 * 3. (- 1) ^ k * (1 / real (k * 2 + 1) * (1 / 3 :: real) ^ (k * 2 + 1)))
          \<le> arctan (1 / 3)"
    by (rule arctan_series_bounds(1)) auto
  then show "0.32175 < arctan (1 / 3 :: real)"
    by (simp add: numeral_eq_Suc)
  have "arctan (1 / 3)
          \<le> (\<Sum>k<2 * 2 + 1. (- 1) ^ k * (1 / real (k * 2 + 1) * (1 / 3 :: real) ^ (k * 2 + 1)))"
    by (rule arctan_series_bounds(2)) auto
  then show "arctan (1 / 3 :: real) < 0.321755"
    by (simp add: numeral_eq_Suc)
qed

lemma pi_bounds: "3.14159 < pi" "pi < 3.1416"
proof -
  have l7: "(\<Sum>k<2 * 2. (- 1) ^ k * (1 / real (k * 2 + 1) * (1 / 7 :: real) ^ (k * 2 + 1)))
              \<le> arctan (1 / 7)"
    by (rule arctan_series_bounds(1)) auto
  have u7: "arctan (1 / 7)
              \<le> (\<Sum>k<2 * 1 + 1. (- 1) ^ k * (1 / real (k * 2 + 1) * (1 / 7 :: real) ^ (k * 2 + 1)))"
    by (rule arctan_series_bounds(2)) auto
  have l79: "(\<Sum>k<2 * 1. (- 1) ^ k * (1 / real (k * 2 + 1) * (3 / 79 :: real) ^ (k * 2 + 1)))
               \<le> arctan (3 / 79)"
    by (rule arctan_series_bounds(1)) auto
  have u79: "arctan (3 / 79)
               \<le> (\<Sum>k<2 * 1 + 1. (- 1) ^ k * (1 / real (k * 2 + 1) * (3 / 79 :: real) ^ (k * 2 + 1)))"
    by (rule arctan_series_bounds(2)) auto
  have e: "pi = 20 * arctan (1 / 7) + 8 * arctan (3 / 79)"
    using machin_Euler by simp
  show "3.14159 < pi" using l7 l79 unfolding e by (simp add: numeral_eq_Suc)
  show "pi < 3.1416" using u7 u79 unfolding e by (simp add: numeral_eq_Suc)
qed

lemma arccos_four_fifths: "arccos (4 / 5) = 2 * arctan (1 / 3)"
proof (rule arccos_unique)
  show "0 \<le> 2 * arctan (1 / 3 :: real)" by simp
  have "arctan (1 / 3 :: real) < pi / 2" by (rule arctan_ubound)
  then show "2 * arctan (1 / 3) \<le> pi" by simp
  show "cos (2 * arctan (1 / 3)) = 4 / 5"
    by (simp add: cos_double cos_arctan sin_arctan power2_eq_square power_divide
        real_sqrt_divide)
qed

lemma bearing_3_4_approx: "\<bar>arccos (4 / 5) * (180 / pi) - 36.87\<bar> < (0.001 :: real)"
proof -
  have p: "0 < pi" by simp
  have "36.869 * pi < 360 * arctan (1 / 3 :: real)"
    using arctan_third_bounds(1) pi_bounds(2) by simp
  then have lo: "36.869 < 2 * arctan (1 / 3) * (180 / pi)"
    using p by (simp add: field_simps)
  have "360 * arctan (1 / 3 :: real) < 36.871 * pi"
    using arctan_third_bounds(2) pi_bounds(1) by simp
  then have hi: "2 * arctan (1 / 3) * (180 / pi) < 36.871"
    using p by (simp add: field_simps)
  show ?thesis unfolding arccos_four_fifths abs_less_iff using lo hi by simp
qed

subsection \<open>The constant offset (3, 4)\<close>

lemma velocity_px_3_4: "velocity_px (Fin 3) 30 (Fin 3) (Fin 4) = Fin 182.5"
  by (simp add: velocity_px_def)

lemma dot_product_px_3_4: "dot_product_px (Fin 3) (Fin 4) = Fin (4 / 5)"
  by (simp add: dot_product_px_def norm2_def Let_def)

lemma direction_px_3_4: "direction_px (Fin 3) (Fin 4) = Fin (arccos (4 / 5) * (180 / pi))"
  by (simp add: direction_px_def bearing_of_dot_def dot_product_px_3_4 rad2deg_def fsub_def
      Let_def arccos_lbound arccos_ubound)

text \<open>
  Claim C1. For a two-band offset raster of any shape \<open>h \<times> w\<close> whose x band is 3 and whose
  y band is 4 at every pixel, with resolution 3 (read from the geotransform or given as
  \<^verbatim>\<open>fixed_res\<close>), a temporal baseline of 30 days and no median shift, calc\_velocity
  returns the magnitude 182.5 at every pixel and one bearing at every pixel, which is
  within 0.001 of 36.87 degrees.
\<close>

theorem calc_velocity_3_4:
  "calc_velocity \<lparr>bands = [replicate h (replicate w (Fin 3)), replicate h (replicate w (Fin 4))],
                  transform0 = Fin 3\<rparr> 30 None False
     = Inr (replicate h (replicate w (Fin 182.5)),
            replicate h (replicate w (Fin (arccos (4 / 5) * (180 / pi)))))
   \<and> calc_velocity \<lparr>bands = [replicate h (replicate w (Fin 3)), replicate h (replicate w (Fin 4))],
                    transform0 = t\<rparr> 30 (Some (Fin 3)) False
     = Inr (replicate h (replicate w (Fin 182.5)),
            replicate h (replicate w (Fin (arccos (4 / 5) * (180 / pi)))))
   \<and> \<bar>arccos (4 / 5) * (180 / pi) - 36.87\<bar> < (0.001 :: real)"
proof (intro conjI)
  show "\<bar>arccos (4 / 5) * (180 / pi) - 36.87\<bar> < (0.001 :: real)"
    by (rule bearing_3_4_approx)
qed (simp_all add: calc_velocity_def read_offsets_def read_band_def count_def bind_err_def
      resolution_of_def amap2_replicate velocity_px_3_4 direction_px_3_4)

subsection \<open>Ranges of magnitude and bearing\<close>








text \<open>
  The value 360 is what the last step yields when the dot product is 1 while dx is
  negative, a case that exact arithmetic excludes. Floating-point rounding produces it:
  \<open>dx\<^sup>2 + dy\<^sup>2\<close> rounds to \<open>dy\<^sup>2\<close> for a dx that is tiny against dy, the dot product
  is then 1.0, and the code returns 360.0 where it aims at a bearing just below 360.
\<close>

lemma bearing_of_dot_360: "bearing_of_dot (Fin (- 1 / 2 ^ 30)) (Fin 1) = Fin 360"
  by (simp add: bearing_of_dot_def rad2deg_def fsub_def Let_def)




subsection \<open>A temporal baseline of zero days\<close>

lemma velocity_px_zero_days:
  "isinf (velocity_px res 0 dx dy) \<or> isnan (velocity_px res 0 dx dy)"
proof -
  have a: "isinf (fdiv a (Fin 0)) \<or> isnan (fdiv a (Fin 0))" for a
    by (cases a) (auto simp: inf_of_sign_def)
  have b: "isinf a \<or> isnan a \<Longrightarrow> isinf (fmul a (Fin 365)) \<or> isnan (fmul a (Fin 365))" for a
    by (cases a) (auto simp: inf_of_sign_def)
  show ?thesis unfolding velocity_px_def using b [OF a] by simp
qed

text \<open>
  Claim C3, as stated, fails: with a day count of 0 the offset (3, 4) at resolution 3
  comes back with the magnitude +inf, and no error is raised.
\<close>

theorem calc_velocity_zero_days_counterexample:
  "calc_velocity \<lparr>bands = [[[Fin 3]], [[Fin 4]]], transform0 = Fin 3\<rparr> 0 None False
     = Inr ([[PInf]], [[Fin (arccos (4 / 5) * (180 / pi))]])"
  by (simp add: calc_velocity_def read_offsets_def read_band_def count_def bind_err_def
      resolution_of_def amap2_def velocity_px_def direction_px_3_4 inf_of_sign_def)

text \<open>
  Claim C3, amended. When calc\_velocity is invoked with a temporal baseline of 0 days on
  a file with at least two bands, it raises no error: it returns its two arrays, and
  every pixel of the magnitude is an infinity or NaN.
\<close>

theorem calc_velocity_zero_days:
  assumes "2 \<le> count f"
  shows "\<exists>v d. calc_velocity f 0 fixed_res medShift = Inr (v, d) \<and>
           (\<forall>row \<in> set v. \<forall>p \<in> set row. isinf p \<or> isnan p)"
proof -
  from read_offsets_ok [OF assms] obtain dx dy where r: "read_offsets f = Inr (dx, dy)"
    by blast
  then obtain v d where c: "calc_velocity f 0 fixed_res medShift = Inr (v, d)"
    by (simp add: calc_velocity_def bind_err_def Let_def)
  from calc_velocity_Inr [OF c] obtain dx dy where
    v: "v = amap2 (velocity_px (resolution_of f fixed_res) 0) dx dy" by blast
  have "isinf p \<or> isnan p" if "row \<in> set v" "p \<in> set row" for row p
    using amap2_pixel [OF that(1) [unfolded v] that(2)] velocity_px_zero_days by auto
  with c show ?thesis by blast
qed

theorem calc_velocity_zero_days_witness:
  "2 \<le> count \<lparr>bands = [[[Fin 3]], [[Fin 4]]], transform0 = Fin 3\<rparr>
   \<and> (\<exists>v d. calc_velocity \<lparr>bands = [[[Fin 3]], [[Fin 4]]], transform0 = Fin 3\<rparr> 0 None False
               = Inr (v, d)
            \<and> (\<forall>row \<in> set v. \<forall>p \<in> set row. isinf p \<or> isnan p))"
proof -
  have c: "2 \<le> count \<lparr>bands = [[[Fin 3]], [[Fin 4]]], transform0 = Fin 3\<rparr>"
    by (simp add: count_def)
  from calc_velocity_zero_days [OF c, of None False] c show ?thesis by blast
qed

section \<open>Properties of the region statistics\<close>

subsection \<open>The caller's array\<close>

lemma sentinel_to_nan_length: "length (sentinel_to_nan r) = length r"
  by (simp add: sentinel_to_nan_def amap_def)

lemma sentinel_to_nan_row_length:
  "i < length r \<Longrightarrow> length (sentinel_to_nan r ! i) = length (r ! i)"
  by (simp add: sentinel_to_nan_def amap_def)

lemma sentinel_to_nan_nth:
  assumes "i < length r" "j < length (r ! i)"
  shows "sentinel_to_nan r ! i ! j = (if r ! i ! j = Fin (- 9999) then NaN else r ! i ! j)"
proof -
  have "feq v (Fin (- 9999)) = (v = Fin (- 9999))" for v by (cases v) auto
  then show ?thesis
    using assms by (simp add: sentinel_to_nan_def amap_def)
qed

lemma offset_stats_pixel_buffer:
  "fst (offset_stats_pixel r xcoord ycoord pad resolution dt take_velocity) = sentinel_to_nan r"
  by (simp add: offset_stats_pixel_def Let_def split: option.splits)

lemma offset_stats_aoi_buffer:
  "fst (offset_stats_aoi r msk resolution dt take_velocity) = sentinel_to_nan r"
  by (simp add: offset_stats_aoi_def Let_def split: option.splits sum.splits)

lemma sentinel_to_nan_free: "Fin (- 9999) \<notin> set (concat (sentinel_to_nan r))"
proof -
  have "(if feq v (Fin (- 9999)) then NaN else v) \<noteq> Fin (- 9999)" for v
    by (cases v) auto
  then show ?thesis
    by (auto simp: sentinel_to_nan_def amap_def)
qed

text \<open>
  Claim C10, as stated, fails: after a call of either function on the one-pixel array
  holding -9999, the array of the caller holds NaN.
\<close>

theorem offset_stats_mutation_counterexample:
  "fst (offset_stats_pixel [[Fin (- 9999)]] 0 0 0 None None True) = [[NaN]]
   \<and> fst (offset_stats_aoi [[Fin (- 9999)]] [[Fin 1]] None None True) = [[NaN]]
   \<and> [[NaN]] \<noteq> [[Fin (- 9999)]]"
  by (simp add: offset_stats_pixel_buffer offset_stats_aoi_buffer sentinel_to_nan_def amap_def)

text \<open>
  Claim C10, amended. offset\_stats\_pixel and offset\_stats\_aoi write into the array
  the caller passed: after the call it has the shape it had, every pixel that was equal
  to the sentinel -9999 is NaN, and every other pixel is unchanged.
\<close>

theorem offset_stats_overwrite_sentinel:
  "(let after = fst (offset_stats_pixel r xcoord ycoord pad resolution dt take_velocity) in
      length after = length r \<and>
      (\<forall>i < length r. length (after ! i) = length (r ! i) \<and>
         (\<forall>j < length (r ! i).
            after ! i ! j = (if r ! i ! j = Fin (- 9999) then NaN else r ! i ! j))))
   \<and> (let after = fst (offset_stats_aoi r msk resolution dt take_velocity) in
      length after = length r \<and>
      (\<forall>i < length r. length (after ! i) = length (r ! i) \<and>
         (\<forall>j < length (r ! i).
            after ! i ! j = (if r ! i ! j = Fin (- 9999) then NaN else r ! i ! j))))"
  by (simp add: offset_stats_pixel_buffer offset_stats_aoi_buffer Let_def
      sentinel_to_nan_length sentinel_to_nan_row_length sentinel_to_nan_nth)

theorem offset_stats_overwrite_sentinel_witness:
  "fst (offset_stats_pixel [[Fin (- 9999), Fin 2]] 1 0 0 None None True) ! 0 ! 0 = NaN
   \<and> fst (offset_stats_pixel [[Fin (- 9999), Fin 2]] 1 0 0 None None True) ! 0 ! 1 = Fin 2
   \<and> fst (offset_stats_aoi [[Fin (- 9999), Fin 2]] [[Fin 1, Fin 1]] None None True) ! 0 ! 0 = NaN
   \<and> fst (offset_stats_aoi [[Fin (- 9999), Fin 2]] [[Fin 1, Fin 1]] None None True) ! 0 ! 1 = Fin 2"
  using offset_stats_overwrite_sentinel
    [of "[[Fin (- 9999), Fin 2]]" 1 0 0 None None True "[[Fin 1, Fin 1]]"]
  by (simp add: Let_def)

subsection \<open>A mask of another shape\<close>

lemma offset_stats_aoi_shape_mismatch:
  assumes "shape r \<noteq> shape msk" "take_velocity \<or> (resolution \<noteq> None \<and> dt \<noteq> None)"
  shows "snd (offset_stats_aoi r msk resolution dt take_velocity) = PyTuple [NaN, NaN, NaN, NaN]"
proof -
  have s: "shape (amap f a) = shape a" for f a
    by (cases a) (simp_all add: shape_def amap_def)
  show ?thesis using assms
    by (auto simp: offset_stats_aoi_def convert_if_raw_def boolean_select_def Let_def s
        sentinel_to_nan_def to_metres_per_year_def split: option.splits)
qed

text \<open>
  Claim C7 fails on a raster of shape (1, 2) with a mask of shape (1, 1): the IndexError
  is caught and reported, but the tuple handed back has four NaNs, not five, and the
  caller's unpacking into five statistics raises ValueError.
\<close>

theorem offset_stats_aoi_four_nan:
  "snd (offset_stats_aoi [[Fin 1, Fin 2]] [[Fin 1]] (Some (Fin 3)) None True)
     = PyTuple [NaN, NaN, NaN, NaN]
   \<and> unpack5 (PyTuple [NaN, NaN, NaN, NaN]) = Inl ValueError"
  by (simp add: offset_stats_aoi_shape_mismatch shape_def)

section \<open>Properties of the upper time limit\<close>

lemma filter_max_dt_set:
  "set (filter_max_dt (Some m) df) = {row \<in> set df. dt_days row \<le> m}"
  by (simp add: filter_max_dt_def)

text \<open>
  Claim C8 fails on a pair whose secondary image is 100 days older than its reference
  (dt = -100 days): with \<^verbatim>\<open>max_dt = 30\<close> the pair is retained although its absolute
  temporal baseline is 100 days.
\<close>

theorem filter_max_dt_signed:
  "filter_max_dt (Some 30)
     [\<lparr>ref = ''a/x.tif'', id_ref = ''x'', id_sec = ''y'', date_ref = 100, date_sec = 0\<rparr>]
   = [\<lparr>ref = ''a/x.tif'', id_ref = ''x'', id_sec = ''y'', date_ref = 100, date_sec = 0\<rparr>]
   \<and> \<bar>dt_days \<lparr>ref = ''a/x.tif'', id_ref = ''x'', id_sec = ''y'', date_ref = 100, date_sec = 0\<rparr>\<bar> = 100"
  by (simp add: filter_max_dt_def dt_days_def)

section \<open>Properties of stack\_rasters\<close>

subsection \<open>Running the function on small inputs\<close>

lemma bind_err_Inr: "bind_err (Inr a) k = k a"
  by (simp add: bind_err_def)

lemma collect_Inr:
  assumes "map g xs = map Inr ys"
  shows "collect g xs = Inr ys"
  using assms by (induction xs arbitrary: ys) (auto simp: bind_err_def)

lemma linear_stack_Nil: "linear_stack [] = Inr (Scalar NaN, Scalar NaN)"
  by (simp add: linear_stack_def reduce_axis0_def bind_err_def)

lemma circular_stack_Nil: "circular_stack [] = Inr (Scalar NaN, Scalar NaN)"
  by (simp add: circular_stack_def reduce_axis0_def bind_err_def rad2deg_def)

lemma os_path_split_example: "os_path_split ''a/x.tif'' = (''a'', ''x.tif'')"
  by (simp add: os_path_split_def)

lemma resolve_matches_example:
  "resolve_matches fs
     (DataFrame (\<lparr>ref = ''a/x.tif'', id_ref = r, id_sec = s, date_ref = d0, date_sec = d1\<rparr> # rows))
   = Inr (Some (\<lparr>ref = ''a/x.tif'', id_ref = r, id_sec = s, date_ref = d0, date_sec = d1\<rparr> # rows,
                ''a'', ''matches.csv''))"
  by (simp add: resolve_matches_def py_index_def bind_err_def os_path_split_example)

lemma disparity_filename_example:
  "disparity_filename []
     \<lparr>ref = ''a/x.tif'', id_ref = ''x'', id_sec = ''y'', date_ref = d0, date_sec = d1\<rparr>
   = ''a/disparity_maps/x_y-F.tif''"
  by (simp add: disparity_filename_def row_path_def os_path_split_example)

lemma linear_stack_single:
  "linear_stack [[[Some (Fin a), Some (Fin b)]]]
     = Inr (Grid [[Some (Fin a), Some (Fin b)]], Grid [[Some (Fin 0), Some (Fin 0)]])"
  by (simp add: linear_stack_def reduce_axis0_def bind_err_def same_shapes_def stack_pixels_def
      shape_def ma_average_px_def ma_std_px_def unmasked_def fsum_def fsub_def Let_def
      upt_rec [of 0 2] upt_rec [of 1 2])

subsection \<open>The validity band and the sentinel in the raw selection\<close>

text \<open>
  Claim C4 fails on a three-band disparity file whose validity band is 0 at the first
  pixel and 1 at the second: for \<^verbatim>\<open>what = "dx"\<close> the stacked mean keeps the first pixel's
  offset 5 (resolution 1, 365 days) instead of leaving it out.
\<close>

theorem stack_rasters_mask_ignored:
  "stack_rasters
     \<lparr>rasters = [''a/disparity_maps/x_y-F.tif'' \<mapsto>
                   \<lparr>bands = [[[Fin 5, Fin 7]], [[Fin 0, Fin 0]], [[Fin 0, Fin 1]]],
                      transform0 = Fin 1\<rparr>],
      tables = Map.empty\<rparr>
     (DataFrame [\<lparr>ref = ''a/x.tif'', id_ref = ''x'', id_sec = ''y'',
                   date_ref = 0, date_sec = 365\<rparr>])
     [] ''dx'' False
   = Inr (Some \<lparr>reference = ''a/disparity_maps/x_y-F.tif'',
                 outname = ''a/matches_average_dx.tif'',
                 average_vals = Grid [[Some (Fin 5), Some (Fin 7)]],
                 std_vals = Grid [[Some (Fin 0), Some (Fin 0)]]\<rparr>,
          Some ''a/matches_average_dx.tif'')"
proof -
  let ?name = "''a/disparity_maps/x_y-F.tif''"
  let ?file = "\<lparr>bands = [[[Fin 5, Fin 7]], [[Fin 0, Fin 0]], [[Fin 0, Fin 1]]],
                 transform0 = Fin 1\<rparr>"
  let ?fs = "\<lparr>rasters = [?name \<mapsto> ?file], tables = Map.empty\<rparr>"
  let ?row = "\<lparr>ref = ''a/x.tif'', id_ref = ''x'', id_sec = ''y'',
                date_ref = 0, date_sec = 365\<rparr>"
  have r: "rasters ?fs ?name = Some ?file" by simp
  have i: "isfile ?fs ?name" by (simp add: isfile_def)
  have raw: "raw_stack ?fs ''dx'' False [?row] [?name] = Inr [[[Some (Fin 5), Some (Fin 7)]]]"
    by (simp add: raw_stack_def r raw_array_list_def isfile_def read_file_def read_band_def
        py_index_def convert_step_def np_where_mask_def broadcastable_def
        shape_def to_metres_per_year_def masked_invalid_def amap_def
        bind_err_def bound_name_def count_def dt_days_def Let_def)
  show ?thesis
    unfolding stack_rasters_def resolve_matches_example
    by (simp add: stack_filenames_def disparity_filename_example raw linear_stack_single i
        bind_err_def os_path_join_def Let_def)
qed

text \<open>
  Claim C5 fails in stack\_rasters: a two-band disparity file whose x offset is the
  sentinel -9999 at the first pixel (resolution 3, 365 days) is stacked for
  \<^verbatim>\<open>what = "dx"\<close> with the sentinel converted to -29997 metres per year; no pixel is
  turned into NaN or masked.
\<close>

theorem stack_rasters_sentinel_participates:
  "stack_rasters
     \<lparr>rasters = [''a/disparity_maps/x_y-F.tif'' \<mapsto>
                   \<lparr>bands = [[[Fin (- 9999), Fin 1]], [[Fin 0, Fin 0]]], transform0 = Fin 3\<rparr>],
      tables = Map.empty\<rparr>
     (DataFrame [\<lparr>ref = ''a/x.tif'', id_ref = ''x'', id_sec = ''y'',
                   date_ref = 0, date_sec = 365\<rparr>])
     [] ''dx'' False
   = Inr (Some \<lparr>reference = ''a/disparity_maps/x_y-F.tif'',
                 outname = ''a/matches_average_dx.tif'',
                 average_vals = Grid [[Some (Fin (- 29997)), Some (Fin 3)]],
                 std_vals = Grid [[Some (Fin 0), Some (Fin 0)]]\<rparr>,
          Some ''a/matches_average_dx.tif'')"
proof -
  let ?name = "''a/disparity_maps/x_y-F.tif''"
  let ?file = "\<lparr>bands = [[[Fin (- 9999), Fin 1]], [[Fin 0, Fin 0]]], transform0 = Fin 3\<rparr>"
  let ?fs = "\<lparr>rasters = [?name \<mapsto> ?file], tables = Map.empty\<rparr>"
  let ?row = "\<lparr>ref = ''a/x.tif'', id_ref = ''x'', id_sec = ''y'',
                date_ref = 0, date_sec = 365\<rparr>"
  have r: "rasters ?fs ?name = Some ?file" by simp
  have i: "isfile ?fs ?name" by (simp add: isfile_def)
  have raw: "raw_stack ?fs ''dx'' False [?row] [?name]
               = Inr [[[Some (Fin (- 29997)), Some (Fin 3)]]]"
    by (simp add: raw_stack_def r raw_array_list_def isfile_def read_file_def read_band_def
        py_index_def convert_step_def np_where_mask_def broadcastable_def
        shape_def to_metres_per_year_def masked_invalid_def amap_def
        bind_err_def bound_name_def count_def dt_days_def Let_def)
  show ?thesis
    unfolding stack_rasters_def resolve_matches_example
    by (simp add: stack_filenames_def disparity_filename_example raw linear_stack_single i
        bind_err_def os_path_join_def Let_def)
qed

subsection \<open>A stack of no files\<close>

lemma mask_list_of_no_files:
  assumes "\<forall>x \<in> set (map snd l). \<not> isfile fs x"
  shows "mask_list_of fs bnds l = Inr []"
  using assms by (induction l) auto

lemma raw_stack_no_files:
  assumes "filter (isfile fs) filenames = []" and "what = ''dx'' \<or> what = ''dy''"
  shows "raw_stack fs what medShift df filenames = Inr []"
proof -
  have n: "\<forall>x \<in> set filenames. \<not> isfile fs x"
    using assms(1) by (simp add: filter_empty_conv)
  have d: "filter (\<lambda>(row, x). isfile fs x) (zip df filenames) = []"
    using n by (auto simp: filter_empty_conv dest: set_zip_rightD)
  have m: "mask_list_of fs bnds (zip [0..<length df] filenames) = Inr []" for bnds
    using n by (intro mask_list_of_no_files) (auto dest: set_zip_rightD)
  have a: "raw_array_list fs what [] = Inr (Some [])"
    using assms(2) by (auto simp: raw_array_list_def bind_err_def)
  show ?thesis
    by (simp add: raw_stack_def assms(1) a d m bind_err_def bound_name_def Let_def)
qed

text \<open>
  Claim C9 fails on a one-row match table whose velocity file does not exist: instead of
  failing, stack\_rasters hands nothing to \<^verbatim>\<open>save_file\<close> and returns the path
  \<^verbatim>\<open>a/matches_average_velocity.tif\<close> of a composite that was never written.
\<close>

theorem stack_rasters_empty_returns_path:
  "stack_rasters \<lparr>rasters = Map.empty, tables = Map.empty\<rparr>
     (DataFrame [\<lparr>ref = ''a/x.tif'', id_ref = ''x'', id_sec = ''y'',
                   date_ref = 0, date_sec = 365\<rparr>])
     [] ''velocity'' False
   = Inr (None, Some ''a/matches_average_velocity.tif'')"
  unfolding stack_rasters_def resolve_matches_example
  by (simp add: stack_filenames_def isfile_def linear_stack_Nil bind_err_def os_path_join_def
      Let_def)

text \<open>
  The same happens for each of the four quantities on every match table with the
  default index of which no file exists. A match file that is itself missing is
  treated differently: the function prints a message and returns \<^verbatim>\<open>None\<close>.
\<close>

lemma stack_rasters_missing_match_file:
  assumes "tables fs p = None"
  shows "stack_rasters fs (MatchFile p) prefix_ext what medShift = Inr (None, None)"
  using assms by (simp add: stack_rasters_def resolve_matches_def bind_err_def)

lemma stack_rasters_no_files:
  assumes "resolve_matches fs matches = Inr (Some (df, path, fn))"
    and "what = ''velocity'' \<or> what = ''direction'' \<or> what = ''dx'' \<or> what = ''dy''"
    and "filter (isfile fs) (stack_filenames prefix_ext what df) = []"
  shows "stack_rasters fs matches prefix_ext what medShift
           = Inr (None, Some (os_path_join path
                   (take (length fn - 4) fn @ ''_average_'' @ what @ prefix_ext @ ''.tif'')))"
proof -
  have f: "find (isfile fs) (stack_filenames prefix_ext what df) = None"
    using assms(3) by (simp add: find_None_iff filter_empty_conv)
  consider (velocity) "what = ''velocity''" | (direction) "what = ''direction''"
    | (raw) "what = ''dx'' \<or> what = ''dy''"
    using assms(2) by blast
  then show ?thesis
  proof cases
    case velocity
    with assms(1,3) f show ?thesis
      by (simp add: stack_rasters_def bind_err_def Let_def linear_stack_Nil)
  next
    case direction
    with assms(1,3) f show ?thesis
      by (simp add: stack_rasters_def bind_err_def Let_def circular_stack_Nil)
  next
    case raw
    from raw_stack_no_files [OF assms(3) raw]
    have r: "raw_stack fs what medShift df (stack_filenames prefix_ext what df) = Inr []" .
    from raw have n: "what \<noteq> ''velocity''" "what \<noteq> ''direction''" by auto
    show ?thesis
      by (simp add: stack_rasters_def assms(1) bind_err_def Let_def n r f linear_stack_Nil)
  qed
qed

subsection \<open>Circular stacking of bearings\<close>

lemma resultant_of_bearings:
  fixes a :: real
  assumes t: "36 * a = 2 * pi"
  shows "0 + sin a + sin (2 * a) + sin (35 * a) + sin 0 = sin (2 * a)"
    and "0 + cos a + cos (2 * a) + cos (35 * a) + cos 0 = 2 * cos a * (1 + cos a)"
proof -
  have e: "35 * a = 36 * a - a" by simp
  have s35: "sin (35 * a) = - sin a"
    unfolding e sin_diff t by simp
  have c35: "cos (35 * a) = cos a"
    unfolding e cos_diff t by simp
  show "0 + sin a + sin (2 * a) + sin (35 * a) + sin 0 = sin (2 * a)"
    unfolding s35 by simp
  have c2: "cos (2 * a) = 2 * (cos a * cos a) - 1"
    unfolding cos_double_cos power2_eq_square by simp
  show "0 + cos a + cos (2 * a) + cos (35 * a) + cos 0 = 2 * cos a * (1 + cos a)"
    unfolding c35 c2 cos_zero by (simp only: algebra_simps)
qed

lemma half_angle_quotient:
  fixes s c :: real
  assumes "0 < c"
  shows "(2 * s * c) / (2 * c * (1 + c)) = s / (c + 1)"
proof -
  have n: "2 * s * c = s * (2 * c)" and d: "2 * c * (1 + c) = (c + 1) * (2 * c)"
    by (simp_all only: algebra_simps)
  show ?thesis unfolding n d using assms by simp
qed

lemma arctan2_of_bearings:
  fixes a :: real
  assumes a: "a = pi / 18"
  shows "arctan2 (sin (2 * a)) (2 * cos a * (1 + cos a)) = a / 2"
proof -
  have c: "0 < cos a" unfolding a by (intro cos_gt_zero_pi) (simp_all add: field_simps)
  have p: "0 < 2 * cos a * (1 + cos a)" using c by (simp add: zero_less_mult_iff)
  have "sin (2 * a) / (2 * cos a * (1 + cos a)) = sin a / (cos a + 1)"
    unfolding sin_double by (rule half_angle_quotient [OF c])
  also have "\<dots> = tan (a / 2)"
    using tan_half [of "a / 2"] by simp
  finally have q: "sin (2 * a) / (2 * cos a * (1 + cos a)) = tan (a / 2)" .
  have r: "arctan (tan (a / 2)) = a / 2"
    by (rule arctan_tan) (simp_all add: a field_simps)
  show ?thesis
    unfolding arctan2_def q r using p by simp
qed

lemma circmean_px_of_bearings:
  "circmean_px (map deg2rad [Fin 10, Fin 20, Fin 350, Fin 0]) = Fin (pi / 36)"
proof -
  define a :: real where "a = pi / 18"
  have t: "36 * a = 2 * pi" by (simp add: a_def)
  have d: "map deg2rad [Fin 10, Fin 20, Fin 350, Fin 0]
             = [Fin a, Fin (2 * a), Fin (35 * a), Fin 0]"
    by (simp add: deg2rad_def a_def)
  have s: "fsum (map fsin [Fin a, Fin (2 * a), Fin (35 * a), Fin 0]) = Fin (sin (2 * a))"
    using resultant_of_bearings(1) [OF t] by (simp add: fsum_def)
  have c: "fsum (map fcos [Fin a, Fin (2 * a), Fin (35 * a), Fin 0])
             = Fin (2 * cos a * (1 + cos a))"
    using resultant_of_bearings(2) [OF t] by (simp add: fsum_def)
  have n: "dropnan [Fin a, Fin (2 * a), Fin (35 * a), Fin 0]
             = [Fin a, Fin (2 * a), Fin (35 * a), Fin 0]"
    by (simp add: dropnan_def)
  have h: "0 < a" by (simp add: a_def)
  have r: "resultant_angle (Fin (sin (2 * a))) (Fin (2 * cos a * (1 + cos a))) = Fin (a / 2)"
    using h by (simp add: arctan2_of_bearings [OF a_def] Let_def)
  show ?thesis
    unfolding d circmean_px_def n Let_def s c r by (simp add: a_def)
qed

lemma circular_mean_degrees:
  "rad2deg (circmean_px (map deg2rad [Fin 10, Fin 20, Fin 350, Fin 0])) = Fin 5"
  unfolding circmean_px_of_bearings by (simp add: rad2deg_def)


lemma shape_amap: "shape (amap f a) = shape a"
  by (cases a) (simp_all add: shape_def amap_def)

lemma rectangular_nth:
  assumes "rectangular a" "i < fst (shape a)"
  shows "i < length a" and "length (a ! i) = snd (shape a)"
proof -
  show "i < length a" using assms(2) by (simp add: shape_def)
  then show "length (a ! i) = snd (shape a)"
    using assms(1) by (simp add: rectangular_def list_all_length)
qed

lemma amap_pixel:
  assumes "rectangular a" "i < fst (shape a)" "j < snd (shape a)"
  shows "amap f a ! i ! j = f (a ! i ! j)"
  using rectangular_nth [OF assms(1,2)] assms(3) by (simp add: amap_def)

lemma reduce_axis0_pixel:
  assumes "arrays \<noteq> []" "same_shapes arrays"
    and "i < fst (shape (hd arrays))" "j < snd (shape (hd arrays))"
  shows "\<exists>m. reduce_axis0 g arrays = Inr (Grid m) \<and> i < length m \<and> j < length (m ! i)
           \<and> m ! i ! j = g (map (\<lambda>a. a ! i ! j) arrays)"
proof -
  obtain h w where hw: "shape (hd arrays) = (h, w)" by (cases "shape (hd arrays)")
  with assms(3,4) have "i < h" "j < w" by simp_all
  then show ?thesis
    using assms(1,2) by (simp add: reduce_axis0_def stack_pixels_def hw)
qed

lemma circular_stack_pixel:
  assumes r: "rectangular b0" "rectangular b1" "rectangular b2" "rectangular b3"
    and s: "shape b1 = shape b0" "shape b2 = shape b0" "shape b3 = shape b0"
    and i: "i < fst (shape b0)" and j: "j < snd (shape b0)"
  shows "\<exists>m sd. circular_stack [amap deg2rad b0, amap deg2rad b1, amap deg2rad b2, amap deg2rad b3]
             = Inr (Grid m, Grid sd)
           \<and> m ! i ! j = Some (rad2deg (circmean_px
                 [deg2rad (b0 ! i ! j), deg2rad (b1 ! i ! j), deg2rad (b2 ! i ! j),
                  deg2rad (b3 ! i ! j)]))"
proof -
  let ?arrays = "[amap deg2rad b0, amap deg2rad b1, amap deg2rad b2, amap deg2rad b3]"
  have ne: "?arrays \<noteq> []" by simp
  have ss: "same_shapes ?arrays" using s by (simp add: same_shapes_def shape_amap)
  have i': "i < fst (shape (hd ?arrays))" and j': "j < snd (shape (hd ?arrays))"
    using i j by (simp_all add: shape_amap)
  have px: "map (\<lambda>a. a ! i ! j) ?arrays
              = [deg2rad (b0 ! i ! j), deg2rad (b1 ! i ! j), deg2rad (b2 ! i ! j),
                 deg2rad (b3 ! i ! j)]"
    using r s i j by (simp add: amap_pixel)
  from reduce_axis0_pixel [OF ne ss i' j', of "\<lambda>v. Some (circmean_px v)"]
  obtain m where m: "reduce_axis0 (\<lambda>v. Some (circmean_px v)) ?arrays = Inr (Grid m)"
    "i < length m" "j < length (m ! i)"
    "m ! i ! j = Some (circmean_px (map (\<lambda>a. a ! i ! j) ?arrays))" by blast
  from reduce_axis0_pixel [OF ne ss i' j', of "\<lambda>v. Some (circstd_px v)"]
  obtain sd where sd: "reduce_axis0 (\<lambda>v. Some (circstd_px v)) ?arrays = Inr (Grid sd)"
    by blast
  have "circular_stack ?arrays
          = Inr (Grid (map (map (map_option rad2deg)) m), Grid (map (map (map_option rad2deg)) sd))"
    unfolding circular_stack_def m(1) sd by (simp add: bind_err_def)
  moreover have "map (map (map_option rad2deg)) m ! i ! j
          = Some (rad2deg (circmean_px [deg2rad (b0 ! i ! j), deg2rad (b1 ! i ! j),
                 deg2rad (b2 ! i ! j), deg2rad (b3 ! i ! j)]))"
    using m(2,3) m(4) [unfolded px] by simp
  ultimately show ?thesis by blast
qed

text \<open>
  Claim C6. When the four existing files of a direction stack have rasters of one shape
  that hold, at a pixel (i, j), the bearings 10, 20, 350 and 0 degrees, stack\_rasters
  with \<^verbatim>\<open>what = "direction"\<close> saves a composite whose mean at that pixel is 5 degrees,
  the direction of the resultant of the four unit vectors; the linear mean of the four
  values is 95.
\<close>

theorem stack_rasters_direction_wraparound:
  assumes "resolve_matches fs matches = Inr (Some (df, path, fn))"
    and "map (\<lambda>x. read_file fs x 2) (filter (isfile fs) (stack_filenames prefix_ext ''direction'' df))
           = [Inr b0, Inr b1, Inr b2, Inr b3]"
    and "rectangular b0" "rectangular b1" "rectangular b2" "rectangular b3"
    and "shape b1 = shape b0" "shape b2 = shape b0" "shape b3 = shape b0"
    and "i < fst (shape b0)" and "j < snd (shape b0)"
    and "b0 ! i ! j = Fin 10" "b1 ! i ! j = Fin 20" "b2 ! i ! j = Fin 350" "b3 ! i ! j = Fin 0"
  shows "\<exists>ref out m sd. stack_rasters fs matches prefix_ext ''direction'' medShift
             = Inr (Some \<lparr>reference = ref, outname = out,
                           average_vals = Grid m, std_vals = Grid sd\<rparr>, Some out)
           \<and> m ! i ! j = Some (Fin 5)
           \<and> nanmean [Fin 10, Fin 20, Fin 350, Fin 0] = Fin 95"
proof -
  let ?existing = "filter (isfile fs) (stack_filenames prefix_ext ''direction'' df)"
  have c: "collect (\<lambda>x. bind_err (read_file fs x 2) (\<lambda>a. Inr (amap deg2rad a))) ?existing
             = Inr [amap deg2rad b0, amap deg2rad b1, amap deg2rad b2, amap deg2rad b3]"
  proof (rule collect_Inr)
    have "map (\<lambda>x. bind_err (read_file fs x 2) (\<lambda>a. Inr (amap deg2rad a))) ?existing
            = map (\<lambda>r. bind_err r (\<lambda>a. Inr (amap deg2rad a))) (map (\<lambda>x. read_file fs x 2) ?existing)"
      by simp
    also have "\<dots> = map Inr [amap deg2rad b0, amap deg2rad b1, amap deg2rad b2, amap deg2rad b3]"
      unfolding assms(2) by (simp add: bind_err_def)
    finally show "map (\<lambda>x. bind_err (read_file fs x 2) (\<lambda>a. Inr (amap deg2rad a))) ?existing
            = map Inr [amap deg2rad b0, amap deg2rad b1, amap deg2rad b2, amap deg2rad b3]" .
  qed
  have "?existing \<noteq> []" using assms(2) by auto
  then obtain ref where f: "find (isfile fs) (stack_filenames prefix_ext ''direction'' df) = Some ref"
    by (cases "find (isfile fs) (stack_filenames prefix_ext ''direction'' df)")
       (auto simp: find_None_iff filter_empty_conv)
  from circular_stack_pixel [OF assms(3-11)] obtain m sd where
    cs: "circular_stack [amap deg2rad b0, amap deg2rad b1, amap deg2rad b2, amap deg2rad b3]
           = Inr (Grid m, Grid sd)" and
    px: "m ! i ! j = Some (rad2deg (circmean_px
                 [deg2rad (b0 ! i ! j), deg2rad (b1 ! i ! j), deg2rad (b2 ! i ! j),
                  deg2rad (b3 ! i ! j)]))" by blast
  have m5: "m ! i ! j = Some (Fin 5)"
    unfolding px assms(12-15) using circular_mean_degrees by simp
  have lin: "nanmean [Fin 10, Fin 20, Fin 350, Fin 0] = Fin 95"
    by (simp add: nanmean_def dropnan_def fsum_def)
  have "stack_rasters fs matches prefix_ext ''direction'' medShift
          = Inr (Some \<lparr>reference = ref,
                        outname = os_path_join path
                          (take (length fn - 4) fn @ ''_average_'' @ ''direction'' @ prefix_ext @ ''.tif''),
                        average_vals = Grid m, std_vals = Grid sd\<rparr>,
                 Some (os_path_join path
                          (take (length fn - 4) fn @ ''_average_'' @ ''direction'' @ prefix_ext @ ''.tif'')))"
    by (simp add: stack_rasters_def assms(1) c cs f bind_err_Inr Let_def)
  with m5 lin show ?thesis by blast
qed

theorem stack_rasters_direction_wraparound_witness:
  "\<exists>ref out m sd.
     stack_rasters
       \<lparr>rasters = [''a/disparity_maps/x_1-F_velocity.tif'' \<mapsto>
                     \<lparr>bands = [[[Fin 1]], [[Fin 10]]], transform0 = Fin 3\<rparr>,
                   ''a/disparity_maps/x_2-F_velocity.tif'' \<mapsto>
                     \<lparr>bands = [[[Fin 1]], [[Fin 20]]], transform0 = Fin 3\<rparr>,
                   ''a/disparity_maps/x_3-F_velocity.tif'' \<mapsto>
                     \<lparr>bands = [[[Fin 1]], [[Fin 350]]], transform0 = Fin 3\<rparr>,
                   ''a/disparity_maps/x_4-F_velocity.tif'' \<mapsto>
                     \<lparr>bands = [[[Fin 1]], [[Fin 0]]], transform0 = Fin 3\<rparr>],
        tables = Map.empty\<rparr>
       (DataFrame
          [\<lparr>ref = ''a/x.tif'', id_ref = ''x'', id_sec = ''1'', date_ref = 0, date_sec = 30\<rparr>,
           \<lparr>ref = ''a/x.tif'', id_ref = ''x'', id_sec = ''2'', date_ref = 0, date_sec = 60\<rparr>,
           \<lparr>ref = ''a/x.tif'', id_ref = ''x'', id_sec = ''3'', date_ref = 0, date_sec = 90\<rparr>,
           \<lparr>ref = ''a/x.tif'', id_ref = ''x'', id_sec = ''4'', date_ref = 0, date_sec = 120\<rparr>])
       [] ''direction'' False
       = Inr (Some \<lparr>reference = ref, outname = out,
                     average_vals = Grid m, std_vals = Grid sd\<rparr>, Some out)
     \<and> m ! 0 ! 0 = Some (Fin 5)
     \<and> nanmean [Fin 10, Fin 20, Fin 350, Fin 0] = Fin 95"
proof -
  let ?fs = "\<lparr>rasters = [''a/disparity_maps/x_1-F_velocity.tif'' \<mapsto>
                     \<lparr>bands = [[[Fin 1]], [[Fin 10]]], transform0 = Fin 3\<rparr>,
                   ''a/disparity_maps/x_2-F_velocity.tif'' \<mapsto>
                     \<lparr>bands = [[[Fin 1]], [[Fin 20]]], transform0 = Fin 3\<rparr>,
                   ''a/disparity_maps/x_3-F_velocity.tif'' \<mapsto>
                     \<lparr>bands = [[[Fin 1]], [[Fin 350]]], transform0 = Fin 3\<rparr>,
                   ''a/disparity_maps/x_4-F_velocity.tif'' \<mapsto>
                     \<lparr>bands = [[[Fin 1]], [[Fin 0]]], transform0 = Fin 3\<rparr>],
        tables = Map.empty\<rparr>"
  let ?df = "[\<lparr>ref = ''a/x.tif'', id_ref = ''x'', id_sec = ''1'', date_ref = 0, date_sec = 30\<rparr>,
           \<lparr>ref = ''a/x.tif'', id_ref = ''x'', id_sec = ''2'', date_ref = 0, date_sec = 60\<rparr>,
           \<lparr>ref = ''a/x.tif'', id_ref = ''x'', id_sec = ''3'', date_ref = 0, date_sec = 90\<rparr>,
           \<lparr>ref = ''a/x.tif'', id_ref = ''x'', id_sec = ''4'', date_ref = 0, date_sec = 120\<rparr>]"
  have a: "resolve_matches ?fs (DataFrame ?df) = Inr (Some (?df, ''a'', ''matches.csv''))"
    by (rule resolve_matches_example)
  have n: "stack_filenames [] ''direction'' ?df
             = [''a/disparity_maps/x_1-F_velocity.tif'', ''a/disparity_maps/x_2-F_velocity.tif'',
                ''a/disparity_maps/x_3-F_velocity.tif'', ''a/disparity_maps/x_4-F_velocity.tif'']"
    by (simp add: stack_filenames_def velocity_filename_def row_path_def os_path_split_example)
  have b: "map (\<lambda>x. read_file ?fs x 2) (filter (isfile ?fs) (stack_filenames [] ''direction'' ?df))
             = [Inr [[Fin 10]], Inr [[Fin 20]], Inr [[Fin 350]], Inr [[Fin 0]]]"
    unfolding n by (simp add: isfile_def read_file_def read_band_def)
  have r: "rectangular [[Fin 10]]" "rectangular [[Fin 20]]" "rectangular [[Fin 350]]"
    "rectangular [[Fin 0]]"
    by (simp_all add: rectangular_def shape_def)
  have s: "shape [[Fin 20]] = shape [[Fin 10]]" "shape [[Fin 350]] = shape [[Fin 10]]"
    "shape [[Fin 0]] = shape [[Fin 10]]"
    by (simp_all add: shape_def)
  have i: "0 < fst (shape [[Fin 10]])" "0 < snd (shape [[Fin 10]])"
    by (simp_all add: shape_def)
  have p: "[[Fin 10]] ! 0 ! 0 = Fin 10" "[[Fin 20]] ! 0 ! 0 = Fin 20"
    "[[Fin 350]] ! 0 ! 0 = Fin 350" "[[Fin 0]] ! 0 ! 0 = Fin 0"
    by simp_all
  show ?thesis
    by (rule stack_rasters_direction_wraparound [OF a b r s i p])
qed

end
